theory Spec2Isabelle
  imports Complex_Main "HOL-Library.List_Lexorder" "HOL-Library.Char_ord"
begin

section \<open>The literal value model (data-model/value)\<close>

subsection \<open>Links\<close>

text \<open>
  The field \<open>type\<close> of a link is one of the string literals "file", "header" and "block".
  It is a datatype here, and \<open>link_type_name\<close> gives back the string that the
  comparator hands to \<open>localeCompare\<close>.
\<close>

datatype link_type = File | Header | Block

fun link_type_name :: "link_type \<Rightarrow> string" where
  "link_type_name File = ''file''"
| "link_type_name Header = ''header''"
| "link_type_name Block = ''block''"

text \<open>
  The class \<open>Link\<close>. An optional field (\<open>display?\<close>, \<open>subpath?\<close>) is an option:
  \<open>None\<close> is JavaScript's \<open>undefined\<close>.
\<close>

record Link =
  path :: string
  display :: "string option"
  subpath :: "string option"
  embed :: bool
  type :: link_type

text \<open>\<open>Link.file(path, embed = false, display?)\<close>: the subpath is \<open>undefined\<close>.\<close>

definition Link_file :: "string \<Rightarrow> bool \<Rightarrow> string option \<Rightarrow> Link" where
  "Link_file p e d = \<lparr> path = p, display = d, subpath = None, embed = e, type = File \<rparr>"

text \<open>
  \<open>Link.equals(other)\<close>. The argument may be \<open>undefined\<close> or \<open>null\<close> (here \<open>None\<close>),
  and then the result is false. On strings and on \<open>undefined\<close> the loose equality \<open>==\<close>
  of the source is equality of the values.
\<close>

definition equals :: "Link \<Rightarrow> Link option \<Rightarrow> bool" where
  "equals this other =
     (case other of
        None \<Rightarrow> False
      | Some other \<Rightarrow>
          path this = path other \<and> type this = type other \<and> subpath this = subpath other)"

subsection \<open>Numbers, dates and durations\<close>

text \<open>
  A JavaScript number is an IEEE double: \<open>NaN\<close>, the two infinities, or a finite value,
  which is a rational number. The operators \<open><\<close> and \<open>==\<close> on doubles compare the
  values exactly, are false whenever an operand is \<open>NaN\<close>, and do not tell the two zeros
  apart.
\<close>

datatype number = NaN | NegInfinity | Finite rat | PosInfinity

fun number_lt :: "number \<Rightarrow> number \<Rightarrow> bool" where
  "number_lt NaN _ = False"
| "number_lt _ NaN = False"
| "number_lt NegInfinity NegInfinity = False"
| "number_lt NegInfinity _ = True"
| "number_lt _ NegInfinity = False"
| "number_lt PosInfinity _ = False"
| "number_lt _ PosInfinity = True"
| "number_lt (Finite x) (Finite y) = (x < y)"

fun number_eq :: "number \<Rightarrow> number \<Rightarrow> bool" where
  "number_eq NaN _ = False"
| "number_eq _ NaN = False"
| "number_eq x y = (x = y)"

text \<open>
  Modelled from the spec: the date and duration types of the luxon library, which is not
  part of the sources. "Date/Duration: compare by underlying magnitude; equality uses the
  type's own value-equality (calendar/zone-aware), not raw instant equality."
  The operator \<open><\<close> compares the \<open>valueOf()\<close> of its operands, a number of milliseconds;
  \<open>equals\<close> compares that and the rest of the value (zone and locale of a date, the
  unit breakdown of a duration), which is the second field here.
\<close>

record DateTime =
  dt_valueOf :: number
  dt_zone :: string

record Duration =
  dur_valueOf :: number
  dur_units :: "int list"

definition DateTime_lt :: "DateTime \<Rightarrow> DateTime \<Rightarrow> bool" where
  "DateTime_lt a b = number_lt (dt_valueOf a) (dt_valueOf b)"

definition DateTime_equals :: "DateTime \<Rightarrow> DateTime \<Rightarrow> bool" where
  "DateTime_equals a b = (number_eq (dt_valueOf a) (dt_valueOf b) \<and> dt_zone a = dt_zone b)"

definition Duration_lt :: "Duration \<Rightarrow> Duration \<Rightarrow> bool" where
  "Duration_lt a b = number_lt (dur_valueOf a) (dur_valueOf b)"

definition Duration_equals :: "Duration \<Rightarrow> Duration \<Rightarrow> bool" where
  "Duration_equals a b = (dur_units a = dur_units b)"

subsection \<open>Literals\<close>

text \<open>
  The union \<open>Literal\<close>, one constructor for each member. An object is the list of its own
  properties in insertion order, with distinct keys. An HTML element and a function are
  opaque and stand as a number that names them. \<open>LUndefined\<close> is the value \<open>undefined\<close>,
  which is not a member of the union but which the functions below test for, and which
  reading a missing property of an object gives. The selectors (\<open>asString\<close> and the
  others) are the casts of the source, as in \<open>wrap2.value as string\<close>.
\<close>

datatype Literal =
    LUndefined
  | LNull
  | LBoolean (asBoolean: bool)
  | LNumber (asNumber: number)
  | LString (asString: string)
  | LDate (asDate: DateTime)
  | LDuration (asDuration: Duration)
  | LLink (asLink: Link)
  | LArray (asArray: "Literal list")
  | LObject (asObject: "(string \<times> Literal) list")
  | LHtml nat
  | LFunction nat

datatype LiteralType =
    TBoolean | TNumber | TString | TDate | TDuration | TLink | TArray | TObject
  | THtml | TFunction | TNull

fun typeName :: "LiteralType \<Rightarrow> string" where
  "typeName TBoolean = ''boolean''"
| "typeName TNumber = ''number''"
| "typeName TString = ''string''"
| "typeName TDate = ''date''"
| "typeName TDuration = ''duration''"
| "typeName TLink = ''link''"
| "typeName TArray = ''array''"
| "typeName TObject = ''object''"
| "typeName THtml = ''html''"
| "typeName TFunction = ''function''"
| "typeName TNull = ''null''"

text \<open>The operator \<open>typeof\<close>: \<open>typeof null\<close> is "object".\<close>

fun typeof :: "Literal \<Rightarrow> string" where
  "typeof LUndefined = ''undefined''"
| "typeof LNull = ''object''"
| "typeof (LBoolean _) = ''boolean''"
| "typeof (LNumber _) = ''number''"
| "typeof (LString _) = ''string''"
| "typeof (LDate _) = ''object''"
| "typeof (LDuration _) = ''object''"
| "typeof (LLink _) = ''object''"
| "typeof (LArray _) = ''object''"
| "typeof (LObject _) = ''object''"
| "typeof (LHtml _) = ''object''"
| "typeof (LFunction _) = ''function''"

text \<open>The predicates of the namespace \<open>Values\<close>, in the order of the source.\<close>

definition isString :: "Literal \<Rightarrow> bool" where
  "isString val = (typeof val = ''string'')"

definition isNumber :: "Literal \<Rightarrow> bool" where
  "isNumber val = (typeof val = ''number'')"

fun isDate :: "Literal \<Rightarrow> bool" where
  "isDate (LDate _) = True"
| "isDate _ = False"

fun isDuration :: "Literal \<Rightarrow> bool" where
  "isDuration (LDuration _) = True"
| "isDuration _ = False"

definition isNull :: "Literal \<Rightarrow> bool" where
  "isNull val = (val = LNull \<or> val = LUndefined)"

fun isArray :: "Literal \<Rightarrow> bool" where
  "isArray (LArray _) = True"
| "isArray _ = False"

definition isBoolean :: "Literal \<Rightarrow> bool" where
  "isBoolean val = (typeof val = ''boolean'')"

fun isLink :: "Literal \<Rightarrow> bool" where
  "isLink (LLink _) = True"
| "isLink _ = False"

fun isHtml :: "Literal \<Rightarrow> bool" where
  "isHtml (LHtml _) = True"
| "isHtml _ = False"

definition isObject :: "Literal \<Rightarrow> bool" where
  "isObject val =
     (typeof val = ''object'' \<and> \<not> isHtml val \<and> \<not> isArray val \<and> \<not> isDuration val
      \<and> \<not> isDate val \<and> \<not> isLink val)"

definition isFunction :: "Literal \<Rightarrow> bool" where
  "isFunction val = (typeof val = ''function'')"

text \<open>\<open>wrapValue\<close>: the tag of a value and the value, or \<open>undefined\<close> (here \<open>None\<close>).\<close>

definition wrapValue :: "Literal \<Rightarrow> (LiteralType \<times> Literal) option" where
  "wrapValue val =
     (if isNull val then Some (TNull, val)
      else if isNumber val then Some (TNumber, val)
      else if isString val then Some (TString, val)
      else if isBoolean val then Some (TBoolean, val)
      else if isDuration val then Some (TDuration, val)
      else if isDate val then Some (TDate, val)
      else if isHtml val then Some (THtml, val)
      else if isArray val then Some (TArray, val)
      else if isLink val then Some (TLink, val)
      else if isFunction val then Some (TFunction, val)
      else if isObject val then Some (TObject, val)
      else None)"


text \<open>
  Reading a property of an object: \<open>o[key]\<close> is the value stored under the key, or
  \<open>undefined\<close>. \<open>Object.keys(o)\<close> are the keys of the own properties.
\<close>

definition getProperty :: "(string \<times> Literal) list \<Rightarrow> string \<Rightarrow> Literal" where
  "getProperty obj key = (case map_of obj key of None \<Rightarrow> LUndefined | Some v \<Rightarrow> v)"

definition Object_keys :: "(string \<times> Literal) list \<Rightarrow> string list" where
  "Object_keys obj = map fst obj"

text \<open>The truth value of a \<open>string | undefined\<close>: false for \<open>undefined\<close> and for "".\<close>

fun truthy :: "string option \<Rightarrow> bool" where
  "truthy None = False"
| "truthy (Some s) = (s \<noteq> [])"

subsection \<open>The comparator\<close>

text \<open>
  \<open>Values.compareValue(val1, val2, linkNormalizer?)\<close>. The first argument \<open>lc\<close> is the
  host's \<open>String.prototype.localeCompare\<close>, which the source calls and does not define.
  The recursive calls of the source pass no link normalizer. The \<open>switch\<close> on the tag of
  the first value is the case distinction on \<open>fst wrap1\<close>; the two values have the same tag
  there, and the selectors read them as the casts of the source do.

  The loop over two arrays is \<open>compareArrayLoop\<close>: it walks the shared prefix and returns
  the first comparison that is not 0; when one array is exhausted, the difference of the
  lengths of what is left of the two is \<open>f1.length - f2.length\<close>. The loop over the
  sorted keys of the first object is \<open>compareObjectLoop\<close>. \<open>k1.sort()\<close> sorts strings by
  their code units, which is the order of \<open>sort\<close> on \<open>string\<close>.
\<close>

function compareValue :: "(string \<Rightarrow> string \<Rightarrow> int) \<Rightarrow> Literal \<Rightarrow> Literal \<Rightarrow> (string \<Rightarrow> string) option \<Rightarrow> int"
  and compareArrayLoop :: "(string \<Rightarrow> string \<Rightarrow> int) \<Rightarrow> Literal list \<Rightarrow> Literal list \<Rightarrow> int"
  and compareObjectLoop :: "(string \<Rightarrow> string \<Rightarrow> int) \<Rightarrow> string list \<Rightarrow> (string \<times> Literal) list \<Rightarrow> (string \<times> Literal) list \<Rightarrow> int"
where
  "compareValue lc val1 val2 linkNormalizer =
     (let val1 = (if val1 = LUndefined then LNull else val1);
          val2 = (if val2 = LUndefined then LNull else val2)
      in
      if val1 = LNull \<and> val2 = LNull then 0
      else if val1 = LNull then 1
      else if val2 = LNull then - 1
      else
        (case (wrapValue val1, wrapValue val2) of
           (None, None) \<Rightarrow> 0
         | (None, Some _) \<Rightarrow> 1
         | (Some _, None) \<Rightarrow> - 1
         | (Some wrap1, Some wrap2) \<Rightarrow>
             if fst wrap1 \<noteq> fst wrap2 then lc (typeName (fst wrap1)) (typeName (fst wrap2))
             else
               (case fst wrap1 of
                  TString \<Rightarrow> lc (asString (snd wrap1)) (asString (snd wrap2))
                | TNumber \<Rightarrow>
                    if number_lt (asNumber (snd wrap1)) (asNumber (snd wrap2)) then - 1
                    else if number_eq (asNumber (snd wrap1)) (asNumber (snd wrap2)) then 0
                    else 1
                | TNull \<Rightarrow> 0
                | TBoolean \<Rightarrow>
                    if asBoolean (snd wrap1) = asBoolean (snd wrap2) then 0
                    else if asBoolean (snd wrap1) then 1 else - 1
                | TLink \<Rightarrow>
                    (let link1 = asLink (snd wrap1);
                         link2 = asLink (snd wrap2);
                         normalize = (case linkNormalizer of None \<Rightarrow> (\<lambda>x. x) | Some f \<Rightarrow> f);
                         pathCompare = lc (normalize (path link1)) (normalize (path link2))
                     in if pathCompare \<noteq> 0 then pathCompare
                        else
                          (let typeCompare = lc (link_type_name (type link1)) (link_type_name (type link2))
                           in if typeCompare \<noteq> 0 then typeCompare
                              else if truthy (subpath link1) \<and> \<not> truthy (subpath link2) then 1
                              else if \<not> truthy (subpath link1) \<and> truthy (subpath link2) then - 1
                              else if \<not> truthy (subpath link1) \<and> \<not> truthy (subpath link2) then 0
                              else lc (case subpath link1 of None \<Rightarrow> [] | Some s \<Rightarrow> s)
                                      (case subpath link2 of None \<Rightarrow> [] | Some s \<Rightarrow> s)))
                | TDate \<Rightarrow>
                    if DateTime_lt (asDate (snd wrap1)) (asDate (snd wrap2)) then - 1
                    else if DateTime_equals (asDate (snd wrap1)) (asDate (snd wrap2)) then 0
                    else 1
                | TDuration \<Rightarrow>
                    if Duration_lt (asDuration (snd wrap1)) (asDuration (snd wrap2)) then - 1
                    else if Duration_equals (asDuration (snd wrap1)) (asDuration (snd wrap2)) then 0
                    else 1
                | TArray \<Rightarrow>
                    (let f1 = asArray (snd wrap1);
                         f2 = asArray (snd wrap2)
                     in compareArrayLoop lc f1 f2)
                | TObject \<Rightarrow>
                    (let o1 = asObject (snd wrap1);
                         o2 = asObject (snd wrap2);
                         k1 = sort (Object_keys o1);
                         k2 = sort (Object_keys o2);
                         keyCompare = compareValue lc (LArray (map LString k1)) (LArray (map LString k2)) None
                     in if keyCompare \<noteq> 0 then keyCompare
                        else compareObjectLoop lc k1 o1 o2)
                | THtml \<Rightarrow> 0
                | TFunction \<Rightarrow> 0)))"
| "compareArrayLoop lc [] f2 = - int (length f2)"
| "compareArrayLoop lc (x # f1) [] = int (length (x # f1))"
| "compareArrayLoop lc (x # f1) (y # f2) =
     (let comp = compareValue lc x y None
      in if comp \<noteq> 0 then comp else compareArrayLoop lc f1 f2)"
| "compareObjectLoop lc [] o1 o2 = 0"
| "compareObjectLoop lc (key # keys) o1 o2 =
     (let comp = compareValue lc (getProperty o1 key) (getProperty o2 key) None
      in if comp \<noteq> 0 then comp else compareObjectLoop lc keys o1 o2)"
  by pat_completeness auto

termination
proof (relation "measures [
    (\<lambda>x. case x of
        Inl (lc, v1, v2, n) \<Rightarrow> 3 * size v1 + (case v1 of LObject _ \<Rightarrow> 2 | _ \<Rightarrow> 0)
      | Inr (Inl (lc, f1, f2)) \<Rightarrow> 3 * size_list size f1
      | Inr (Inr (lc, ks, o1, o2)) \<Rightarrow> 3 * size (LObject o1) + 1),
    (\<lambda>x. case x of
        Inl _ \<Rightarrow> 0
      | Inr (Inl _) \<Rightarrow> 0
      | Inr (Inr (lc, ks, o1, o2)) \<Rightarrow> length ks)]", goal_cases)
  have wrap_inv: "snd w = v \<and> (fst w = TArray \<longrightarrow> (\<exists>xs. v = LArray xs))
      \<and> (fst w = TObject \<longrightarrow> (\<exists>ob. v = LObject ob))"
    if "wrapValue v = Some w" for v w
    using that
    by (cases v) (auto simp: wrapValue_def isNull_def isNumber_def isString_def isBoolean_def
        isFunction_def isObject_def split: if_splits)
  have wrap_inv': "snd w = v \<and> (fst w = TArray \<longrightarrow> (\<exists>xs. v = LArray xs))
      \<and> (fst w = TObject \<longrightarrow> (\<exists>ob. v = LObject ob))"
    if "Some w = wrapValue v" for v w
    using that wrap_inv [of v w] by simp
  have keys_size: "size_list size (map LString ks) = length ks" for ks
    by (induction ks) auto
  have obj_size: "2 * length ob \<le> size_list (size_prod (\<lambda>_. 0) size) ob"
    for ob :: "(string \<times> Literal) list"
    by (induction ob) auto
  have prop_size: "size (getProperty ob k) < size (LObject ob)" for ob k
  proof (cases "map_of ob k")
    case None
    then show ?thesis by (simp add: getProperty_def)
  next
    case (Some v)
    then have "(k, v) \<in> set ob" by (rule map_of_SomeD)
    then have "size v < Suc (size_list (size_prod (\<lambda>_. 0) size) ob)"
      by (induction ob) auto
    with Some show ?thesis by (simp add: getProperty_def)
  qed
  have keys_lt: "3 * size_list (size \<circ> LString) (sort (map fst ob))
      < Suc (Suc (3 * size_list (size_prod (\<lambda>x. 0) size) ob))" for ob :: "(string \<times> Literal) list"
  proof -
    have "size_list (size \<circ> LString) (sort (map fst ob)) = length ob"
      using keys_size[of "sort (map fst ob)"] by (simp add: size_list_map)
    then show ?thesis using obj_size[of ob] by simp
  qed
  have prop_bound: "3 * size (getProperty ob k) + (case getProperty ob k of LObject _ \<Rightarrow> 2 | _ \<Rightarrow> 0)
      < 3 * size (LObject ob) + 1" for ob k
    using prop_size[of ob k] by (cases "getProperty ob k") auto
  {
    case 1 show ?case by simp
  next
    case prems: 2
    then show ?case by (auto split: if_splits dest!: wrap_inv wrap_inv')
  next
    case prems: 3
    then show ?case
      by (auto split: if_splits dest!: wrap_inv wrap_inv' simp: keys_lt Object_keys_def)
  next
    case prems: 4
    then show ?case by (auto split: if_splits dest!: wrap_inv wrap_inv')
  next
    case 5 then show ?case by (simp split: Literal.split)
  next
    case 6 then show ?case by simp
  next
    case 7 show ?case using prop_bound by auto
  next
    case 8 then show ?case by simp
  }
qed

declare compareValue.simps [simp del]


subsection \<open>Detecting groupings\<close>

text \<open>
  What the functions below throw, and what a rejected read of a document is.
\<close>

datatype error = TypeError | ReadError

text \<open>
  \<open>Groupings.isElementGroup(entry)\<close>. The operator \<open>&&\<close> evaluates its right operand only
  when the left one is true. \<open>Object.keys(null)\<close> throws a \<open>TypeError\<close>. The only values
  that pass \<open>Values.isObject\<close> are \<open>null\<close> and the plain objects, so the last case is never
  reached.
\<close>

definition isElementGroup :: "Literal \<Rightarrow> error + bool" where
  "isElementGroup entry =
     (if \<not> isObject entry then Inr False
      else
        (case entry of
           LNull \<Rightarrow> Inl TypeError
         | LObject ob \<Rightarrow>
             Inr (length (Object_keys ob) = 2 \<and> ''key'' \<in> set (Object_keys ob)
                  \<and> ''rows'' \<in> set (Object_keys ob))
         | _ \<Rightarrow> Inr False))"

text \<open>\<open>Groupings.isGrouping(entry)\<close>: the loop returns false at the first element that is
  not a group, and an exception of \<open>isElementGroup\<close> leaves the loop.\<close>

fun isGrouping :: "Literal list \<Rightarrow> error + bool" where
  "isGrouping [] = Inr True"
| "isGrouping (element # entry) =
     (case isElementGroup element of
        Inl e \<Rightarrow> Inl e
      | Inr b \<Rightarrow> if \<not> b then Inr False else isGrouping entry)"

section \<open>Strings\<close>

abbreviation LF :: char where "LF \<equiv> CHR 0x0A"
abbreviation CR :: char where "CR \<equiv> CHR 0x0D"
abbreviation TAB :: char where "TAB \<equiv> CHR 0x09"

text \<open>
  A string is a list of code units, of which the type \<open>char\<close> has the first 256. The white
  space of \<open>String.prototype.trim\<close> and of the class \<open>\s\<close> is the same set: tab, line feed,
  vertical tab, form feed, carriage return, space, no-break space, and code units beyond
  the type.
\<close>

definition isWhitespace :: "char \<Rightarrow> bool" where
  "isWhitespace c = (c \<in> {CHR 0x09, CHR 0x0A, CHR 0x0B, CHR 0x0C, CHR 0x0D, CHR 0x20, CHR 0xA0})"

definition trim :: "string \<Rightarrow> string" where
  "trim s = rev (dropWhile isWhitespace (rev (dropWhile isWhitespace s)))"

text \<open>\<open>/^\s*/u.exec(s)[0]\<close>: the leading white space of a string.\<close>

definition leadingWhitespace :: "string \<Rightarrow> string" where
  "leadingWhitespace s = takeWhile isWhitespace s"

text \<open>
  \<open>text.split(/\r?\n/u)\<close>: a separator is a line feed, or a carriage return and the line
  feed after it. \<open>text.split("\n")\<close>: a separator is a line feed. Both return at least
  one part.
\<close>

fun splitLines :: "string \<Rightarrow> string list" where
  "splitLines [] = [[]]"
| "splitLines [c] = (if c = LF then [[], []] else [[c]])"
| "splitLines (c # d # cs) =
     (if c = CR \<and> d = LF then [] # splitLines cs
      else if c = LF then [] # splitLines (d # cs)
      else (let r = splitLines (d # cs) in (c # hd r) # tl r))"

fun splitLF :: "string \<Rightarrow> string list" where
  "splitLF [] = [[]]"
| "splitLF (c # cs) =
     (if c = LF then [] # splitLF cs
      else (let r = splitLF cs in (c # hd r) # tl r))"

text \<open>\<open>parts.join(sep)\<close>.\<close>

fun join :: "string \<Rightarrow> string list \<Rightarrow> string" where
  "join sep [] = []"
| "join sep [p] = p"
| "join sep (p # q # ps) = p @ sep @ join sep (q # ps)"




section \<open>The task view (ui/views/task-view)\<close>

subsection \<open>List items\<close>

text \<open>
  A list item or task as the index hands it over: the path of its file, its line (from 0),
  the number of lines it spans, its text (the field \<open>text\<close>, here \<open>text'\<close>), its list marker,
  its status character and its children.
\<close>

datatype SListItem =
  SListItem (path: string) (line: nat) (lineCount: nat) (text': string) (symbol: string)
    (status: string) (children: "SListItem list")

subsection \<open>Removing duplicates\<close>





subsection \<open>Task completion\<close>

text \<open>
  The loop of \<open>trimEndingLines\<close>: the index \<open>trim\<close> goes down while it is above 0 and the
  part at it is blank.
\<close>

function trimLoop :: "string list \<Rightarrow> nat \<Rightarrow> nat" where
  "trimLoop parts i =
     (if i > 0 \<and> trim (parts ! i) = [] then trimLoop parts (i - 1) else i)"
  by pat_completeness auto
termination
  by (relation "measure (\<lambda>(parts, i). i)") auto

declare trimLoop.simps [simp del]

text \<open>
  \<open>trimEndingLines(text)\<close>. The source computes the index \<open>trim\<close> and returns
  \<open>parts.join("\n")\<close>. The index starts at the last part, so every read is in range.
\<close>

definition trimEndingLines :: "string \<Rightarrow> string" where
  "trimEndingLines txt =
     (let parts = splitLines txt;
          i = trimLoop parts (length parts - 1)
      in join [LF] parts)"

text \<open>
  \<open>setTaskCompletion(originalText, completionKey, complete)\<close> (the last argument is
  \<open>complete'\<close> here). Two things it calls are not
  in the sources and are arguments here: \<open>setInlineField\<close> of data-import/inline-field,
  whose third argument is the new value or \<open>undefined\<close>, and the ISO date of today,
  \<open>DateTime.now().toISODate()\<close>.
\<close>

definition setTaskCompletion ::
  "(string \<Rightarrow> string \<Rightarrow> string option \<Rightarrow> string) \<Rightarrow> string \<Rightarrow> string \<Rightarrow> string \<Rightarrow> bool \<Rightarrow> string"
where
  "setTaskCompletion setInlineField today originalText completionKey complete' =
     (if \<not> complete' then trimEndingLines (setInlineField originalText completionKey None)
      else
        (let parts = splitLines originalText;
             parts = parts[length parts - 1 :=
                       setInlineField (parts ! (length parts - 1)) completionKey (Some today)]
         in join [LF] parts))"

subsection \<open>Rewriting a task in its file\<close>

text \<open>
  The vault: the text of each file, and the reads and writes made so far, oldest first.
  A read of a path that has no file is rejected; a write stores the text.
\<close>

datatype io_event = Read string | Write string string

record vault =
  files :: "string \<Rightarrow> string option"
  log :: "io_event list"

definition adapter_read :: "vault \<Rightarrow> string \<Rightarrow> (error + string) \<times> vault" where
  "adapter_read v p =
     (case files v p of
        None \<Rightarrow> (Inl ReadError, v\<lparr>log := log v @ [Read p]\<rparr>)
      | Some t \<Rightarrow> (Inr t, v\<lparr>log := log v @ [Read p]\<rparr>))"

definition adapter_write :: "vault \<Rightarrow> string \<Rightarrow> string \<Rightarrow> vault" where
  "adapter_write v p t = v\<lparr>files := (files v)(p \<mapsto> t), log := log v @ [Write p t]\<rparr>"

text \<open>
  The result of \<open>LIST_ITEM_REGEX.exec\<close>, when the line matches: the whole match and the
  groups, each a string or \<open>undefined\<close>. \<open>groupAt m i\<close> is \<open>m[i]\<close>.
\<close>

type_synonym RegExpExecArray = "string option list"

definition groupAt :: "RegExpExecArray \<Rightarrow> nat \<Rightarrow> string option" where
  "groupAt m i = (if i < length m then m ! i else None)"

text \<open>
  \<open>filetext[i]\<close> as the argument of \<open>exec\<close>: the line, or, past the end of the array,
  \<open>undefined\<close>, which \<open>exec\<close> converts to the string "undefined".
\<close>

definition lineAt :: "string list \<Rightarrow> nat \<Rightarrow> string" where
  "lineAt filetext i = (if i < length filetext then filetext ! i else ''undefined'')"

text \<open>
  \<open>xs.splice(start, deleteCount, ...items)\<close> for a start within the array: as many
  elements as there are from \<open>start\<close> on, and at most \<open>deleteCount\<close>, give way to the
  items. \<open>xs[i] = x\<close>: an assignment at the length of the array appends.
\<close>

definition splice :: "'a list \<Rightarrow> nat \<Rightarrow> nat \<Rightarrow> 'a list \<Rightarrow> 'a list" where
  "splice xs start deleteCount items =
     take start xs @ items @ drop (start + min deleteCount (length xs - start)) xs"

definition assignAt :: "'a list \<Rightarrow> nat \<Rightarrow> 'a \<Rightarrow> 'a list" where
  "assignAt xs i x = (if i < length xs then xs[i := x] else xs @ [x])"

text \<open>
  The second half of \<open>rewriteTask\<close>, after the checks: the lines of the file after the
  rewrite. The test \<open>if (desiredText)\<close> is false for \<open>undefined\<close> and for the empty
  string.
\<close>

definition rewriteLines :: "string list \<Rightarrow> SListItem \<Rightarrow> string \<Rightarrow> string option \<Rightarrow> string list" where
  "rewriteLines filetext task desiredStatus desiredText =
     (let taskTextParts = splitLF (text' task);
          initialSpacing = leadingWhitespace (lineAt filetext (line task))
      in
      if truthy desiredText then
        (let desiredParts = splitLF (the desiredText);
             newTextLines =
               [initialSpacing @ symbol task @ '' ['' @ desiredStatus @ ''] '' @ hd desiredParts]
               @ map (\<lambda>l. initialSpacing @ [TAB] @ l) (tl desiredParts)
         in splice filetext (line task) (lineCount task) newTextLines)
      else
        assignAt filetext (line task)
          (initialSpacing @ symbol task @ '' ['' @ desiredStatus @ ''] '' @ trim (hd taskTextParts)))"

text \<open>
  \<open>rewriteTask(vault, task, desiredStatus, desiredText?)\<close>. The first argument is
  \<open>LIST_ITEM_REGEX.exec\<close> of data-import/markdown-file, which is not in the sources: it
  gives \<open>null\<close> (here \<open>None\<close>) or the match. Reading \<open>length\<close> of a group that is
  \<open>undefined\<close>, or calling \<open>trim\<close> on it, throws a \<open>TypeError\<close>. The result is the outcome
  of the call and the vault after it.
\<close>

definition rewriteTask ::
  "(string \<Rightarrow> RegExpExecArray option) \<Rightarrow> vault \<Rightarrow> SListItem \<Rightarrow> string \<Rightarrow> string option
     \<Rightarrow> (error + unit) \<times> vault"
where
  "rewriteTask LIST_ITEM_REGEX_exec v task desiredStatus desiredText =
     (if desiredStatus = status task \<and> (desiredText = None \<or> desiredText = Some (text' task))
      then (Inr (), v)
      else
        (let desiredStatus = (if desiredStatus = [] then '' '' else desiredStatus)
         in
         case adapter_read v (SListItem.path task) of
           (Inl e, v) \<Rightarrow> (Inl e, v)
         | (Inr rawFiletext, v) \<Rightarrow>
             (let hasRN = (CR \<in> set rawFiletext);
                  filetext = splitLines rawFiletext
              in
              if length filetext < line task then (Inr (), v)
              else
                (case LIST_ITEM_REGEX_exec (lineAt filetext (line task)) of
                   None \<Rightarrow> (Inr (), v)
                 | Some match \<Rightarrow>
                     (case groupAt match 2 of
                        None \<Rightarrow> (Inl TypeError, v)
                      | Some m2 \<Rightarrow>
                          if length m2 = 0 then (Inr (), v)
                          else
                            (let taskTextParts = splitLF (text' task)
                             in
                             case groupAt match 3 of
                               None \<Rightarrow> (Inl TypeError, v)
                             | Some m3 \<Rightarrow>
                                 if trim (hd taskTextParts) \<noteq> trim m3 then (Inr (), v)
                                 else
                                   (let filetext = rewriteLines filetext task desiredStatus desiredText;
                                        newText = join (if hasRN then [CR, LF] else [LF]) filetext
                                    in (Inr (), adapter_write v (SListItem.path task) newText))))))))"


section \<open>Notions used in the statements\<close>

text \<open>
  An instance of \<open>localeCompare\<close> for the examples: the order of the code units, with
  results \<open>-1\<close>, \<open>0\<close> and \<open>1\<close>.
\<close>

definition codeUnitCompare :: "string \<Rightarrow> string \<Rightarrow> int" where
  "codeUnitCompare x y = (if x < y then - 1 else if x = y then 0 else 1)"

text \<open>
  The difference of the lengths of two lists, and the greatest difference of lengths that
  two values show at corresponding places: between the two values when both are arrays
  (for objects, between their numbers of keys), between the elements at the same index of
  two arrays, and between the values under the same key of two objects.
\<close>

fun maxList :: "nat list \<Rightarrow> nat" where
  "maxList [] = 0"
| "maxList (x # xs) = max x (maxList xs)"

definition lengthDifference :: "'a list \<Rightarrow> 'b list \<Rightarrow> nat" where
  "lengthDifference xs ys = nat \<bar>int (length xs) - int (length ys)\<bar>"

function gap :: "Literal \<Rightarrow> Literal \<Rightarrow> nat" where
  "gap a b =
     (case (a, b) of
        (LArray f1, LArray f2) \<Rightarrow>
          max (lengthDifference f1 f2) (maxList (map (\<lambda>(x, y). gap x y) (zip f1 f2)))
      | (LObject o1, LObject o2) \<Rightarrow>
          max (lengthDifference o1 o2)
            (maxList (map (\<lambda>k. gap (getProperty o1 k) (getProperty o2 k)) (Object_keys o1)))
      | _ \<Rightarrow> 0)"
  by pat_completeness auto
termination
proof (relation "measure (\<lambda>(a, b). size a)", goal_cases)
  case 1
  show ?case by simp
next
  case prems: 2
  have sz: "size x < Suc (size_list size f1)" if "x \<in> set f1" for x :: Literal and f1
    using that by (induction f1) auto
  from prems show ?case by (auto dest!: set_zip_leftD sz)
next
  case prems: 3
  have sz: "size (getProperty o1 k) < Suc (size_list (size_prod (\<lambda>_. 0) size) o1)" for o1 k
  proof (cases "map_of o1 k")
    case None
    then show ?thesis by (simp add: getProperty_def)
  next
    case (Some v)
    then have "(k, v) \<in> set o1" by (rule map_of_SomeD)
    then have "size v < Suc (size_list (size_prod (\<lambda>_. 0) size) o1)"
      by (induction o1) auto
    with Some show ?thesis by (simp add: getProperty_def)
  qed
  from prems show ?case using sz by auto
qed

declare gap.simps [simp del]

text \<open>
  An instance of \<open>LIST_ITEM_REGEX.exec\<close> for the examples: it matches a line that is, after
  its leading white space, a dash, a space, a checkbox of one character, a space and a
  body, and gives the line, the dash, the checkbox and the body.
\<close>

definition dashTaskExec :: "string \<Rightarrow> RegExpExecArray option" where
  "dashTaskExec s =
     (case dropWhile isWhitespace s of
        a # b # c # d # e # f # body \<Rightarrow>
          if a = CHR ''-'' \<and> b = CHR '' '' \<and> c = CHR ''['' \<and> e = CHR '']'' \<and> f = CHR '' ''
          then Some [Some s, Some ''-'', Some [c, d, e], Some body]
          else None
      | _ \<Rightarrow> None)"

text \<open>
  A second instance of \<open>LIST_ITEM_REGEX.exec\<close> for the examples, in which the checkbox is
  optional: it matches a line that is, after its leading white space, a dash, a space and
  the rest. When the rest is a checkbox of one character, a space and a body, the groups
  are the dash, the checkbox and the body; otherwise they are the dash, the empty string
  and the rest.
\<close>

definition dashItemExec :: "string \<Rightarrow> RegExpExecArray option" where
  "dashItemExec s =
     (case dropWhile isWhitespace s of
        a # b # rest \<Rightarrow>
          if a = CHR ''-'' \<and> b = CHR '' '' then
            (case rest of
               c # d # e # f # body \<Rightarrow>
                 if c = CHR ''['' \<and> e = CHR '']'' \<and> f = CHR '' ''
                 then Some [Some s, Some ''-'', Some [c, d, e], Some body]
                 else Some [Some s, Some ''-'', Some [], Some rest]
             | _ \<Rightarrow> Some [Some s, Some ''-'', Some [], Some rest])
          else None
      | _ \<Rightarrow> None)"

text \<open>
  The rewrite with a replacement text in the words of the specification. The line ending
  is CRLF when the text of the file has a carriage return, and LF otherwise. The lines
  before the addressed line stay; line 0 of the replacement becomes
  \<open><indent><marker> [<status>] <firstLine>\<close>, each later line \<open><indent><tab><line>\<close>,
  with the leading white space of the addressed line as the indent; the lines after the
  \<open>lineCount\<close> lines of the task stay.
\<close>

definition lineEnding :: "string \<Rightarrow> string" where
  "lineEnding rawFiletext = (if CR \<in> set rawFiletext then [CR, LF] else [LF])"

definition splicedLines :: "string list \<Rightarrow> SListItem \<Rightarrow> string \<Rightarrow> string \<Rightarrow> string list" where
  "splicedLines filetext task st replacement =
     (let indent = leadingWhitespace (lineAt filetext (line task));
          parts = splitLF replacement
      in take (line task) filetext
         @ [indent @ symbol task @ '' ['' @ st @ ''] '' @ hd parts]
         @ map (\<lambda>l. indent @ [TAB] @ l) (tl parts)
         @ drop (line task + lineCount task) filetext)"


section \<open>Properties of the value model\<close>

lemma wrapValue_total: "wrapValue v \<noteq> None"
  by (cases v) (simp_all add: wrapValue_def isNull_def isNumber_def isString_def isBoolean_def
      isFunction_def isObject_def)

text \<open>
  C1. The claim: \<open>compareValue\<close> is a strict total order on all literals, with
  \<open>compare(a, a) = 0\<close> for every value, numbers such as \<open>NaN\<close> included, and
  \<open>compare(a, b) < 0\<close> exactly when \<open>compare(b, a) > 0\<close>. The code at \<open>NaN\<close>: both
  \<open><\<close> and \<open>==\<close> are false there, so the number case falls through to \<open>return 1\<close>;
  \<open>NaN\<close> compares greater than itself, and \<open>NaN\<close> and \<open>1\<close> each compare greater than the
  other.
\<close>

theorem C1_compareValue_NaN:
  "compareValue lc (LNumber NaN) (LNumber NaN) n = 1
   \<and> compareValue lc (LNumber NaN) (LNumber (Finite 1)) n = 1
   \<and> compareValue lc (LNumber (Finite 1)) (LNumber NaN) n = 1"
  by (simp add: compareValue.simps wrapValue_def isNull_def isNumber_def)

text \<open>
  C5. For every literal \<open>a\<close> other than \<open>null\<close> (and \<open>undefined\<close>, which counts as
  \<open>null\<close>), \<open>compareValue(a, null) < 0\<close> and \<open>compareValue(null, a) > 0\<close>: \<open>null\<close> is the
  greatest element. \<open>compareValue(null, null) = 0\<close>, and an argument \<open>undefined\<close> gives
  what \<open>null\<close> gives in its place. Every value of the type is classified by
  \<open>wrapValue\<close> (\<open>wrapValue_total\<close>).
\<close>

theorem C5_null_is_maximum:
  "(a \<noteq> LNull \<and> a \<noteq> LUndefined \<longrightarrow>
      compareValue lc a LNull n < 0 \<and> compareValue lc LNull a n > 0)
   \<and> compareValue lc LNull LNull n = 0
   \<and> compareValue lc LUndefined b n = compareValue lc LNull b n
   \<and> compareValue lc b LUndefined n = compareValue lc b LNull n"
  by (simp add: compareValue.simps[of lc a] compareValue.simps[of lc LNull]
        compareValue.simps[of lc LUndefined] compareValue.simps[of lc b])

theorem C5_null_is_maximum_witness:
  "LString ''a'' \<noteq> LNull \<and> LString ''a'' \<noteq> LUndefined
   \<and> compareValue codeUnitCompare (LString ''a'') LNull None < 0
   \<and> compareValue codeUnitCompare LNull (LString ''a'') None > 0
   \<and> compareValue codeUnitCompare LNull LNull None = 0
   \<and> compareValue codeUnitCompare LUndefined (LString ''a'') None
       = compareValue codeUnitCompare LNull (LString ''a'') None
   \<and> compareValue codeUnitCompare (LString ''a'') LUndefined None
       = compareValue codeUnitCompare (LString ''a'') LNull None"
  using C5_null_is_maximum [of "LString ''a''" codeUnitCompare None "LString ''a''"]
  by simp

text \<open>
  C9. \<open>a.equals(b)\<close> is true exactly when the paths, the types and the subpaths of the two
  links are equal; \<open>display\<close> and \<open>embed\<close> have no part in it, and
  \<open>Link.file("a.md", true, "X").equals(Link.file("a.md", false, "Y"))\<close> is true.
\<close>

theorem C9_link_equality:
  "equals a (Some b) = (Link.path a = Link.path b \<and> type a = type b \<and> subpath a = subpath b)
   \<and> equals (a\<lparr>display := d, embed := e\<rparr>) (Some (b\<lparr>display := d', embed := e'\<rparr>))
       = equals a (Some b)
   \<and> equals (Link_file ''a.md'' True (Some ''X'')) (Some (Link_file ''a.md'' False (Some ''Y'')))"
  by (simp add: equals_def Link_file_def)


text \<open>
  C10. The claim: \<open>isObject(null)\<close> is true, \<open>isElementGroup(null)\<close> throws, and so
  \<open>isGrouping(seq)\<close> throws for any sequence that contains \<open>null\<close>. The loop of
  \<open>isGrouping\<close> returns false at the first element that is not a group, so a \<open>null\<close>
  after such an element is never looked at: \<open>isGrouping([1, null])\<close> is false.
\<close>

theorem C10_isGrouping_returns_before_null:
  "LNull \<in> set [LNumber (Finite 1), LNull]
   \<and> isGrouping [LNumber (Finite 1), LNull] = Inr False"
  by (simp add: isElementGroup_def isObject_def)

lemma isGrouping_prefix:
  "\<forall>x\<in>set pre. isElementGroup x = Inr True \<Longrightarrow> isGrouping (pre @ rest) = isGrouping rest"
  by (induction pre) simp_all

text \<open>
  C10, as the code has it: \<open>isObject(null)\<close> is true and \<open>isElementGroup(null)\<close> throws;
  \<open>isGrouping(seq)\<close> throws when every element before the first \<open>null\<close> is a group.
\<close>

theorem C10_isGrouping_throws_at_null:
  "isObject LNull \<and> isElementGroup LNull = Inl TypeError
   \<and> ((\<forall>x\<in>set pre. isElementGroup x = Inr True)
        \<longrightarrow> isGrouping (pre @ LNull # rest) = Inl TypeError)"
  by (simp add: isGrouping_prefix isElementGroup_def isObject_def)

theorem C10_isGrouping_throws_at_null_witness:
  "isElementGroup (LObject [(''key'', LNumber (Finite 1)), (''rows'', LArray [])]) = Inr True
   \<and> isGrouping ([LObject [(''key'', LNumber (Finite 1)), (''rows'', LArray [])]]
                  @ LNull # [LNumber NaN]) = Inl TypeError"
  using C10_isGrouping_throws_at_null
          [of "[LObject [(''key'', LNumber (Finite 1)), (''rows'', LArray [])]]" "[LNumber NaN]"]
  by (simp add: isElementGroup_def isObject_def Object_keys_def)

subsection \<open>The range of the comparator\<close>

lemma maxList_ge: "x \<in> set xs \<Longrightarrow> x \<le> maxList xs"
  by (induction xs) auto

lemmas wrap_defs = wrapValue_def isNull_def isNumber_def isString_def isBoolean_def
  isFunction_def isObject_def

lemma compareValue_LArray:
  "compareValue lc (LArray f1) (LArray f2) n = compareArrayLoop lc f1 f2"
  by (simp add: compareValue.simps wrap_defs)

lemma compareValue_LObject:
  "compareValue lc (LObject o1) (LObject o2) n =
     (let k1 = sort (Object_keys o1);
          k2 = sort (Object_keys o2);
          keyCompare = compareValue lc (LArray (map LString k1)) (LArray (map LString k2)) None
      in if keyCompare \<noteq> 0 then keyCompare else compareObjectLoop lc k1 o1 o2)"
  by (simp add: compareValue.simps[of lc "LObject o1"] wrap_defs)

lemma compareValue_LString:
  "compareValue lc (LString s1) (LString s2) n = lc s1 s2"
  by (simp add: compareValue.simps wrap_defs)

lemma compareValue_flat:
  assumes lc: "\<And>x y. lc x y \<in> {- 1, 0, 1}"
    and "\<not> (isArray a \<and> isArray b)" and "\<not> (isObject a \<and> isObject b) \<or> a = LNull \<or> b = LNull"
  shows "compareValue lc a b n \<in> {- 1, 0, 1}"
proof -
  have lc': "lc x y = - 1 \<or> lc x y = 0 \<or> lc x y = 1" for x y
    using lc [of x y] by simp
  have lc'': "(lc x y = - 1 \<or> lc x y = 1) = (lc x y \<noteq> 0)" for x y
    using lc' [of x y] by auto
  show ?thesis
    using assms(2,3)
    by (cases a; cases b) (simp_all add: compareValue.simps wrap_defs Let_def lc' lc'')
qed


lemma compareValue_flat_bound:
  assumes lc: "\<And>x y. lc x y \<in> {- 1, 0, 1}"
    and "\<not> isArray a" and "\<not> isObject a \<or> a = LNull"
  shows "\<bar>compareValue lc a b n\<bar> \<le> max 1 k"
proof -
  have "compareValue lc a b n \<in> {- 1, 0, 1}"
    using assms(2,3) by (intro compareValue_flat lc) auto
  then show ?thesis by auto
qed

lemma bound_mono:
  "\<bar>r\<bar> \<le> max 1 (int A) \<Longrightarrow> A \<le> B \<Longrightarrow> \<bar>r::int\<bar> \<le> max 1 (int B)"
  by linarith

lemma loop_step:
  "\<bar>c\<bar> \<le> B \<Longrightarrow> \<bar>r\<bar> \<le> B \<Longrightarrow> \<bar>let comp = c in if comp \<noteq> 0 then comp else r :: int\<bar> \<le> B"
  by (simp add: Let_def)

lemma gap_LArray:
  "gap (LArray f1) (LArray f2) =
     max (lengthDifference f1 f2) (maxList (map (\<lambda>(x, y). gap x y) (zip f1 f2)))"
  by (simp add: gap.simps [of "LArray f1"])

lemma gap_LObject:
  "gap (LObject o1) (LObject o2) =
     max (lengthDifference o1 o2)
       (maxList (map (\<lambda>k. gap (getProperty o1 k) (getProperty o2 k)) (Object_keys o1)))"
  by (simp add: gap.simps [of "LObject o1"])

lemma compareArrayLoop_strings_gap:
  assumes lc: "\<And>x y. lc x y \<in> {- 1, 0, 1}"
  shows "\<bar>compareArrayLoop lc (map LString k1) (map LString k2)\<bar>
           \<le> max 1 (int (lengthDifference k1 k2))"
proof (induction k1 arbitrary: k2)
  case Nil
  then show ?case by (simp add: lengthDifference_def)
next
  case (Cons k k1)
  show ?case
  proof (cases k2)
    case Nil
    then show ?thesis by (simp add: lengthDifference_def)
  next
    case (Cons k' k2')
    have "\<bar>lc k k'\<bar> \<le> 1" using lc [of k k'] by auto
    then have head: "\<bar>compareValue lc (LString k) (LString k') None\<bar>
        \<le> max 1 (int (lengthDifference (k # k1) (k' # k2')))"
      by (simp add: compareValue_LString)
    have "\<bar>compareArrayLoop lc (map LString k1) (map LString k2')\<bar>
        \<le> max 1 (int (lengthDifference k1 k2'))"
      by (rule Cons.IH)
    then have tail: "\<bar>compareArrayLoop lc (map LString k1) (map LString k2')\<bar>
        \<le> max 1 (int (lengthDifference (k # k1) (k' # k2')))"
      by (simp add: lengthDifference_def)
    show ?thesis
      unfolding Cons list.map compareArrayLoop.simps
      by (rule loop_step) (rule head, rule tail)
  qed
qed

lemma compareArrayLoop_gap:
  assumes "\<And>x y. x \<in> set xs \<Longrightarrow> \<bar>compareValue lc x y None\<bar> \<le> max 1 (int (gap x y))"
  shows "\<bar>compareArrayLoop lc xs ys\<bar> \<le> max 1 (int (gap (LArray xs) (LArray ys)))"
  using assms
proof (induction xs arbitrary: ys)
  case Nil
  then show ?case by (simp add: gap_LArray lengthDifference_def)
next
  case (Cons x xs)
  show ?case
  proof (cases ys)
    case Nil
    then show ?thesis by (simp add: gap_LArray lengthDifference_def)
  next
    case (Cons y ys')
    have head: "\<bar>compareValue lc x y None\<bar> \<le> max 1 (int (gap x y))"
      by (rule Cons.prems) simp
    have tail: "\<bar>compareArrayLoop lc xs ys'\<bar> \<le> max 1 (int (gap (LArray xs) (LArray ys')))"
      by (rule Cons.IH) (rule Cons.prems, simp)
    have "\<bar>compareValue lc x y None\<bar> \<le> max 1 (int (gap (LArray (x # xs)) (LArray (y # ys'))))"
      by (rule bound_mono [OF head]) (simp add: gap_LArray)
    moreover have "\<bar>compareArrayLoop lc xs ys'\<bar>
        \<le> max 1 (int (gap (LArray (x # xs)) (LArray (y # ys'))))"
      by (rule bound_mono [OF tail]) (auto simp: gap_LArray lengthDifference_def)
    ultimately show ?thesis
      unfolding Cons compareArrayLoop.simps by (rule loop_step)
  qed
qed

lemma maxList_map_ge: "k \<in> set ks \<Longrightarrow> f k \<le> maxList (map f ks)"
  by (rule maxList_ge) simp

lemma compareObjectLoop_gap:
  assumes "\<And>k y. \<bar>compareValue lc (getProperty o1 k) y None\<bar>
             \<le> max 1 (int (gap (getProperty o1 k) y))"
    and "set ks \<subseteq> set (Object_keys o1)"
  shows "\<bar>compareObjectLoop lc ks o1 o2\<bar> \<le> max 1 (int (gap (LObject o1) (LObject o2)))"
  using assms(2)
proof (induction ks)
  case Nil
  then show ?case by simp
next
  case (Cons k ks)
  have "\<bar>compareValue lc (getProperty o1 k) (getProperty o2 k) None\<bar>
      \<le> max 1 (int (gap (getProperty o1 k) (getProperty o2 k)))"
    by (rule assms(1))
  moreover have "gap (getProperty o1 k) (getProperty o2 k) \<le> gap (LObject o1) (LObject o2)"
    using Cons.prems
      maxList_map_ge [of k "Object_keys o1" "\<lambda>k. gap (getProperty o1 k) (getProperty o2 k)"]
    by (simp add: gap_LObject)
  ultimately have head: "\<bar>compareValue lc (getProperty o1 k) (getProperty o2 k) None\<bar>
      \<le> max 1 (int (gap (LObject o1) (LObject o2)))"
    by (rule bound_mono)
  have tail: "\<bar>compareObjectLoop lc ks o1 o2\<bar> \<le> max 1 (int (gap (LObject o1) (LObject o2)))"
    by (rule Cons.IH) (use Cons.prems in simp)
  show ?case
    unfolding compareObjectLoop.simps by (rule loop_step) (rule head, rule tail)
qed

lemma compareValue_gap:
  assumes lc: "\<And>x y. lc x y \<in> {- 1, 0, 1}"
  shows "\<bar>compareValue lc a b n\<bar> \<le> max 1 (int (gap a b))"
proof (induction a arbitrary: b n)
  case (LArray xs)
  show ?case
  proof (cases "isArray b")
    case True
    then obtain ys where b: "b = LArray ys" by (cases b) auto
    show ?thesis
      unfolding b compareValue_LArray
      by (rule compareArrayLoop_gap) (rule LArray.IH)
  next
    case False
    then have "compareValue lc (LArray xs) b n \<in> {- 1, 0, 1}"
      by (intro compareValue_flat lc) (auto simp: isObject_def)
    then show ?thesis by auto
  qed
next
  case (LObject ob)
  show ?case
  proof (cases "\<exists>ob2. b = LObject ob2")
    case True
    then obtain ob2 where b: "b = LObject ob2" by blast
    have props: "\<bar>compareValue lc (getProperty ob k) y None\<bar>
        \<le> max 1 (int (gap (getProperty ob k) y))" for k y
    proof (cases "map_of ob k")
      case None
      then show ?thesis
        by (intro compareValue_flat_bound lc) (auto simp: getProperty_def isObject_def)
    next
      case (Some v)
      then have "(k, v) \<in> set ob" by (rule map_of_SomeD)
      then have "\<bar>compareValue lc v y None\<bar> \<le> max 1 (int (gap v y))"
        by (rule LObject.IH) simp
      then show ?thesis using Some by (simp add: getProperty_def)
    qed
    have "\<bar>compareArrayLoop lc (map LString (sort (Object_keys ob)))
             (map LString (sort (Object_keys ob2)))\<bar>
        \<le> max 1 (int (lengthDifference (sort (Object_keys ob)) (sort (Object_keys ob2))))"
      by (rule compareArrayLoop_strings_gap) (rule lc)
    then have keys: "\<bar>compareValue lc (LArray (map LString (sort (Object_keys ob))))
             (LArray (map LString (sort (Object_keys ob2)))) None\<bar>
        \<le> max 1 (int (gap (LObject ob) (LObject ob2)))"
      unfolding compareValue_LArray
      by (rule bound_mono) (simp add: gap_LObject Object_keys_def lengthDifference_def)
    have vals: "\<bar>compareObjectLoop lc (sort (Object_keys ob)) ob ob2\<bar>
        \<le> max 1 (int (gap (LObject ob) (LObject ob2)))"
      by (rule compareObjectLoop_gap) (rule props, simp)
    show ?thesis
      unfolding b compareValue_LObject
      using keys vals by (simp add: Let_def)
  next
    case False
    then have "compareValue lc (LObject ob) b n \<in> {- 1, 0, 1}"
      by (intro compareValue_flat lc) (cases b; auto simp: isObject_def)+
    then show ?thesis by auto
  qed
qed (rule compareValue_flat_bound [OF lc]; simp add: isObject_def)+

lemma compareArrayLoop_find:
  "compareArrayLoop lc f1 f2 =
     (case find (\<lambda>(x, y). compareValue lc x y None \<noteq> 0) (zip f1 f2) of
        Some (x, y) \<Rightarrow> compareValue lc x y None
      | None \<Rightarrow> int (length f1) - int (length f2))"
proof (induction f1 arbitrary: f2)
  case Nil
  then show ?case by simp
next
  case (Cons x f1)
  then show ?case by (cases f2) (auto simp: Let_def split: option.splits)
qed

lemma compareObjectLoop_find:
  "compareObjectLoop lc ks o1 o2 =
     (case find (\<lambda>k. compareValue lc (getProperty o1 k) (getProperty o2 k) None \<noteq> 0) ks of
        Some k \<Rightarrow> compareValue lc (getProperty o1 k) (getProperty o2 k) None
      | None \<Rightarrow> 0)"
  by (induction ks) (simp_all add: Let_def)

text \<open>
  C4. The claim: \<open>compareValue(a, b)\<close> is one of \<open>-1\<close>, \<open>0\<close> and \<open>1\<close> for all literals,
  arrays of different lengths included. When one of two arrays is a prefix of the other,
  the array case returns \<open>f1.length - f2.length\<close>: the empty array against an array of two
  elements gives \<open>-2\<close>.
\<close>

theorem C4_compareValue_length_difference:
  "compareValue codeUnitCompare (LArray []) (LArray [LNull, LNull]) None = - 2
   \<and> compareValue codeUnitCompare (LArray []) (LArray [LNull, LNull]) None \<notin> {- 1, 0, 1}"
  by (simp add: compareValue_LArray)

text \<open>
  C4, as the code has it. Let \<open>localeCompare\<close> return \<open>-1\<close>, \<open>0\<close> or \<open>1\<close>. The absolute
  value of \<open>compareValue(a, b)\<close> is at most 1 or the greatest difference of lengths between
  arrays (of numbers of keys between objects) at corresponding places of \<open>a\<close> and \<open>b\<close>; so
  the result is one of \<open>-1\<close>, \<open>0\<close> and \<open>1\<close> whenever these lengths differ by at most one.
  For two arrays the result is the comparison of the first pair of elements of the shared
  prefix that does not compare 0, and \<open>f1.length - f2.length\<close> when there is none. For two
  objects it is the comparison of the sorted key arrays when that is not 0, then the
  comparison of the first pair of values, in the order of the sorted keys, that does not
  compare 0, and 0 when there is none.
\<close>

theorem C4_compareValue_range:
  assumes "\<forall>x y. lc x y \<in> {- 1, 0, 1}"
  shows "\<bar>compareValue lc a b n\<bar> \<le> max 1 (int (gap a b))
    \<and> (gap a b \<le> 1 \<longrightarrow> compareValue lc a b n \<in> {- 1, 0, 1})
    \<and> compareValue lc (LArray f1) (LArray f2) n =
        (case find (\<lambda>(x, y). compareValue lc x y None \<noteq> 0) (zip f1 f2) of
           Some (x, y) \<Rightarrow> compareValue lc x y None
         | None \<Rightarrow> int (length f1) - int (length f2))
    \<and> compareValue lc (LObject o1) (LObject o2) n =
        (let k1 = sort (Object_keys o1);
             k2 = sort (Object_keys o2);
             keyCompare = compareValue lc (LArray (map LString k1)) (LArray (map LString k2)) None
         in if keyCompare \<noteq> 0 then keyCompare
            else (case find (\<lambda>k. compareValue lc (getProperty o1 k) (getProperty o2 k) None \<noteq> 0) k1 of
                    Some k \<Rightarrow> compareValue lc (getProperty o1 k) (getProperty o2 k) None
                  | None \<Rightarrow> 0))"
proof -
  have bound: "\<bar>compareValue lc a b n\<bar> \<le> max 1 (int (gap a b))"
    by (rule compareValue_gap) (use assms in simp)
  have unit: "compareValue lc a b n \<in> {- 1, 0, 1}" if "gap a b \<le> 1"
  proof -
    have "\<bar>compareValue lc a b n\<bar> \<le> 1" using bound that by simp
    then show ?thesis by auto
  qed
  have arrays: "compareValue lc (LArray f1) (LArray f2) n =
        (case find (\<lambda>(x, y). compareValue lc x y None \<noteq> 0) (zip f1 f2) of
           Some (x, y) \<Rightarrow> compareValue lc x y None
         | None \<Rightarrow> int (length f1) - int (length f2))"
    unfolding compareValue_LArray by (rule compareArrayLoop_find)
  have objects: "compareValue lc (LObject o1) (LObject o2) n =
        (let k1 = sort (Object_keys o1);
             k2 = sort (Object_keys o2);
             keyCompare = compareValue lc (LArray (map LString k1)) (LArray (map LString k2)) None
         in if keyCompare \<noteq> 0 then keyCompare
            else (case find (\<lambda>k. compareValue lc (getProperty o1 k) (getProperty o2 k) None \<noteq> 0) k1 of
                    Some k \<Rightarrow> compareValue lc (getProperty o1 k) (getProperty o2 k) None
                  | None \<Rightarrow> 0))"
    unfolding compareValue_LObject [of lc o1 o2 n] compareObjectLoop_find by (rule refl)
  from bound unit arrays objects show ?thesis by blast
qed

theorem C4_compareValue_range_witness:
  "compareValue codeUnitCompare
       (LArray [LNumber (Finite 2), LNumber (Finite 1), LNumber (Finite 0)])
       (LArray [LNumber (Finite 3), LNumber (Finite 1), LNumber (Finite 0)]) None \<in> {- 1, 0, 1}
   \<and> \<bar>compareValue codeUnitCompare (LArray []) (LArray [LNull, LNull]) None\<bar> \<le> 2
   \<and> compareValue codeUnitCompare (LArray [LNumber (Finite 1)])
         (LArray [LNumber (Finite 2), LNumber (Finite 3), LNumber (Finite 4)]) None
       = compareValue codeUnitCompare (LNumber (Finite 1)) (LNumber (Finite 2)) None
   \<and> compareValue codeUnitCompare (LArray [LString ''a'']) (LArray [LString ''a'', LNull, LNull]) None
       = - 2
   \<and> compareValue codeUnitCompare (LObject [(''k'', LNull)]) (LObject [(''k'', LNull)]) None = 0"
proof -
  have lc: "\<forall>x y. codeUnitCompare x y \<in> {- 1, 0, 1}"
    by (simp add: codeUnitCompare_def)
  have gaps: "gap (LArray [LNumber (Finite 2), LNumber (Finite 1), LNumber (Finite 0)])
                  (LArray [LNumber (Finite 3), LNumber (Finite 1), LNumber (Finite 0)]) = 0"
    "gap (LArray []) (LArray [LNull, LNull]) = 2"
    by (simp_all add: gap_LArray gap.simps [of "LNumber x" for x] lengthDifference_def)
  have leaves: "compareValue codeUnitCompare LNull LNull None = 0"
    "compareValue codeUnitCompare (LString ''a'') (LString ''a'') None = 0"
    "compareValue codeUnitCompare (LString ''k'') (LString ''k'') None = 0"
    "compareValue codeUnitCompare (LNumber (Finite 1)) (LNumber (Finite 2)) None = - 1"
    by (simp_all add: compareValue.simps wrap_defs codeUnitCompare_def)
  show ?thesis
    using C4_compareValue_range [OF lc,
            where a = "LArray [LNumber (Finite 2), LNumber (Finite 1), LNumber (Finite 0)]"
              and b = "LArray [LNumber (Finite 3), LNumber (Finite 1), LNumber (Finite 0)]"
              and n = None
              and ?f1.0 = "[LNumber (Finite 1)]"
              and ?f2.0 = "[LNumber (Finite 2), LNumber (Finite 3), LNumber (Finite 4)]"
              and ?o1.0 = "[(''k'', LNull)]" and ?o2.0 = "[(''k'', LNull)]"]
          C4_compareValue_range [OF lc,
            where a = "LArray []" and b = "LArray [LNull, LNull]" and n = None
              and ?f1.0 = "[LString ''a'']" and ?f2.0 = "[LString ''a'', LNull, LNull]"
              and ?o1.0 = "[]" and ?o2.0 = "[]"]
    by (simp add: gaps leaves compareValue_LArray Object_keys_def getProperty_def)
qed

section \<open>Properties of the task view\<close>

subsection \<open>Removing duplicates\<close>










subsection \<open>Task completion\<close>

lemma trimEndingLines_join: "trimEndingLines txt = join [LF] (splitLines txt)"
  by (simp add: trimEndingLines_def Let_def)

text \<open>
  C3. The claim: \<open>setTaskCompletion(text, key, false)\<close> returns the text without the
  completion field and without its trailing blank lines. \<open>trimEndingLines\<close> finds the last
  line that is not blank and then joins all the parts (\<open>trimEndingLines_join\<close>): for the
  text "buy milk" followed by two line feeds, in which a \<open>setInlineField\<close> that finds no
  field to remove changes nothing, the two blank lines are still there.
\<close>

theorem C3_trailing_blank_lines_kept:
  "trimEndingLines (''buy milk'' @ [LF, LF]) = ''buy milk'' @ [LF, LF]
   \<and> setTaskCompletion (\<lambda>t k v. t) today (''buy milk'' @ [LF, LF]) key False
       = ''buy milk'' @ [LF, LF]"
  by (simp add: setTaskCompletion_def trimEndingLines_join)

subsection \<open>Rewriting a task\<close>

text \<open>
  C8. When the desired status is the status of the task, and no text is given or the text
  given is the text of the task, \<open>rewriteTask\<close> returns with the vault as it was: the files
  and the list of reads and writes are unchanged.
\<close>

theorem C8_rewriteTask_noop:
  assumes "desiredStatus = status task"
    and "desiredText = None \<or> desiredText = Some (text' task)"
  shows "rewriteTask ex v task desiredStatus desiredText = (Inr (), v)"
  using assms by (auto simp: rewriteTask_def)

theorem C8_rewriteTask_noop_witness:
  "''X'' = status (SListItem ''a.md'' 0 1 ''buy milk'' ''-'' ''X'' [])
   \<and> rewriteTask (\<lambda>s. None) \<lparr>files = Map.empty(''a.md'' \<mapsto> ''- [X] buy milk''), log = []\<rparr>
        (SListItem ''a.md'' 0 1 ''buy milk'' ''-'' ''X'' []) ''X'' None
       = (Inr (), \<lparr>files = Map.empty(''a.md'' \<mapsto> ''- [X] buy milk''), log = []\<rparr>)"
  using C8_rewriteTask_noop
          [of "''X''" "SListItem ''a.md'' 0 1 ''buy milk'' ''-'' ''X'' []" None "\<lambda>s. None"
              "\<lparr>files = Map.empty(''a.md'' \<mapsto> ''- [X] buy milk''), log = []\<rparr>"]
  by simp

lemma splice_take_drop:
  "start \<le> length xs \<Longrightarrow> splice xs start n items = take start xs @ items @ drop (start + n) xs"
  by (cases "n \<le> length xs - start") (simp_all add: splice_def min_def)

text \<open>
  C6. The claim: \<open>rewriteTask\<close> writes nothing when the line number of the task is beyond
  the number of lines, when the addressed line does not match the grammar of a list item or
  its captured body is empty, or when the trimmed first line of the text of the task
  differs from the trimmed captured body. The body that the code compares with the text is
  group 3 of the match; the group that it tests for emptiness is group 2. A task whose body
  and text are both empty passes every check: for the file "- [ ] " and the task with the
  empty text, \<open>rewriteTask\<close> with status "X" reads the file and writes "- [X] ".
\<close>

theorem C6_empty_body_is_written:
  "dashTaskExec ''- [ ] '' = Some [Some ''- [ ] '', Some ''-'', Some ''[ ]'', Some []]
   \<and> rewriteTask dashTaskExec \<lparr>files = Map.empty(''a.md'' \<mapsto> ''- [ ] ''), log = []\<rparr>
        (SListItem ''a.md'' 0 1 [] ''-'' '' '' []) ''X'' None
     = (Inr (), \<lparr>files = Map.empty(''a.md'' \<mapsto> ''- [X] ''),
                  log = [Read ''a.md'', Write ''a.md'' ''- [X] '']\<rparr>)"
  by (simp add: dashTaskExec_def isWhitespace_def lineAt_def groupAt_def trim_def
        rewriteTask_def adapter_read_def adapter_write_def rewriteLines_def assignAt_def
        leadingWhitespace_def Let_def)

text \<open>
  C6, as the code has it. Let the file of the task be readable. When the line number of
  the task is beyond the number of lines, or the addressed line does not match the grammar
  of a list item, or group 2 of the match is empty or undefined, or group 3 of the match
  (the body) is undefined, or the trimmed first line of the text of the task differs from
  the trimmed body, \<open>rewriteTask\<close> writes nothing: the files are the same after the call,
  and the only thing that may have been added to the reads and writes is the read of the
  file. (With an undefined group the call ends in a \<open>TypeError\<close>.)
\<close>

theorem C6_rewriteTask_guards:
  assumes "files v (SListItem.path task) = Some raw"
    and "length (splitLines raw) < line task
         \<or> ex (lineAt (splitLines raw) (line task)) = None
         \<or> (\<exists>m. ex (lineAt (splitLines raw) (line task)) = Some m
               \<and> (groupAt m 2 = None \<or> groupAt m 2 = Some [] \<or> groupAt m 3 = None
                    \<or> (\<exists>body. groupAt m 3 = Some body
                          \<and> trim (hd (splitLF (text' task))) \<noteq> trim body)))"
  shows "files (snd (rewriteTask ex v task ds dt)) = files v
         \<and> (log (snd (rewriteTask ex v task ds dt)) = log v
              \<or> log (snd (rewriteTask ex v task ds dt)) = log v @ [Read (SListItem.path task)])"
  using assms
  by (auto simp: rewriteTask_def adapter_read_def Let_def split: option.splits)

theorem C6_rewriteTask_guards_witness:
  "dashItemExec (lineAt (splitLines ''- buy milk'') 0)
       = Some [Some ''- buy milk'', Some ''-'', Some [], Some ''buy milk'']
   \<and> files (snd (rewriteTask dashItemExec
                   \<lparr>files = Map.empty(''a.md'' \<mapsto> ''- buy milk''), log = []\<rparr>
                   (SListItem ''a.md'' 0 1 ''buy milk'' ''-'' '' '' []) ''X'' None)) ''a.md''
       = Some ''- buy milk''
   \<and> dashTaskExec (lineAt (splitLines ''- [ ] buy bread'') 0)
       = Some [Some ''- [ ] buy bread'', Some ''-'', Some ''[ ]'', Some ''buy bread'']
   \<and> trim (hd (splitLF ''buy milk'')) \<noteq> trim ''buy bread''
   \<and> files (snd (rewriteTask dashTaskExec
                   \<lparr>files = Map.empty(''a.md'' \<mapsto> ''- [ ] buy bread''), log = []\<rparr>
                   (SListItem ''a.md'' 0 1 ''buy milk'' ''-'' '' '' []) ''X'' None)) ''a.md''
       = Some ''- [ ] buy bread''
   \<and> length (splitLines ''- [ ] buy milk'') < 5
   \<and> files (snd (rewriteTask dashTaskExec
                   \<lparr>files = Map.empty(''a.md'' \<mapsto> ''- [ ] buy milk''), log = []\<rparr>
                   (SListItem ''a.md'' 5 1 ''buy milk'' ''-'' '' '' []) ''X'' None)) ''a.md''
       = Some ''- [ ] buy milk''
   \<and> dashTaskExec (lineAt (splitLines ''buy milk'') 0) = None
   \<and> files (snd (rewriteTask dashTaskExec
                   \<lparr>files = Map.empty(''a.md'' \<mapsto> ''buy milk''), log = []\<rparr>
                   (SListItem ''a.md'' 0 1 ''buy milk'' ''-'' '' '' []) ''X'' None)) ''a.md''
       = Some ''buy milk''"
  using C6_rewriteTask_guards [of "\<lparr>files = Map.empty(''a.md'' \<mapsto> ''- buy milk''), log = []\<rparr>"
                 "SListItem ''a.md'' 0 1 ''buy milk'' ''-'' '' '' []" "''- buy milk''"
                 dashItemExec "''X''" None]
        C6_rewriteTask_guards [of "\<lparr>files = Map.empty(''a.md'' \<mapsto> ''- [ ] buy bread''), log = []\<rparr>"
                 "SListItem ''a.md'' 0 1 ''buy milk'' ''-'' '' '' []" "''- [ ] buy bread''"
                 dashTaskExec "''X''" None]
        C6_rewriteTask_guards [of "\<lparr>files = Map.empty(''a.md'' \<mapsto> ''- [ ] buy milk''), log = []\<rparr>"
                 "SListItem ''a.md'' 5 1 ''buy milk'' ''-'' '' '' []" "''- [ ] buy milk''"
                 dashTaskExec "''X''" None]
        C6_rewriteTask_guards [of "\<lparr>files = Map.empty(''a.md'' \<mapsto> ''buy milk''), log = []\<rparr>"
                 "SListItem ''a.md'' 0 1 ''buy milk'' ''-'' '' '' []" "''buy milk''"
                 dashTaskExec "''X''" None]
  by (simp add: dashTaskExec_def dashItemExec_def isWhitespace_def lineAt_def groupAt_def trim_def)

text \<open>
  C7. The claim: with a replacement text and all checks passed, the lines of the task give
  way to the lines of the replacement, line 0 as \<open><indent><marker> [<status>] <firstLine>\<close>.
  The code tests \<open>if (desiredText)\<close>, which is false for the empty string: with the empty
  replacement text it rewrites the addressed line with the first line of the text of the
  task, as it does when no text is given. For the file "- [ ] buy milk" it writes
  "- [X] buy milk", where the splice with the empty text gives "- [X] ".
\<close>

theorem C7_empty_replacement_text:
  "files (snd (rewriteTask dashTaskExec
                 \<lparr>files = Map.empty(''a.md'' \<mapsto> ''- [ ] buy milk''), log = []\<rparr>
                 (SListItem ''a.md'' 0 1 ''buy milk'' ''-'' '' '' []) ''X'' (Some []))) ''a.md''
     = Some ''- [X] buy milk''
   \<and> join (lineEnding ''- [ ] buy milk'')
         (splicedLines (splitLines ''- [ ] buy milk'')
            (SListItem ''a.md'' 0 1 ''buy milk'' ''-'' '' '' []) ''X'' [])
     = ''- [X] ''"
  by (simp add: dashTaskExec_def isWhitespace_def lineAt_def groupAt_def trim_def
        rewriteTask_def adapter_read_def adapter_write_def rewriteLines_def assignAt_def
        leadingWhitespace_def lineEnding_def splicedLines_def Let_def)

text \<open>
  C7, as the code has it. Let the call not be the no-op of C8, the file be readable, all
  checks pass, and the replacement text not be empty. Then \<open>rewriteTask\<close> reads the file and
  writes it once; the text written is the lines of the file, joined with CRLF when the
  text read has a carriage return and with LF otherwise, in which the \<open>lineCount\<close> lines
  from the addressed line on (or those that are left, when there are fewer) have given way
  to the lines of the replacement: line 0 as \<open><indent><marker> [<status>] <firstLine>\<close>,
  each later line as \<open><indent><tab><line>\<close>, the indent being the leading white space of
  the addressed line and the status a space when the desired status is empty.
\<close>

theorem C7_rewriteTask_splice:
  assumes "\<not> (ds = status task \<and> txt = text' task)"
    and "files v (SListItem.path task) = Some raw"
    and "\<not> length (splitLines raw) < line task"
    and "ex (lineAt (splitLines raw) (line task)) = Some m"
    and "groupAt m 2 = Some checkbox" and "checkbox \<noteq> []"
    and "groupAt m 3 = Some body"
    and "trim (hd (splitLF (text' task))) = trim body"
    and "txt \<noteq> []"
  shows "rewriteTask ex v task ds (Some txt) =
           (let newText = join (lineEnding raw)
                            (splicedLines (splitLines raw) task (if ds = [] then '' '' else ds) txt)
            in (Inr (), v\<lparr>files := (files v)(SListItem.path task \<mapsto> newText),
                           log := log v @ [Read (SListItem.path task),
                                           Write (SListItem.path task) newText]\<rparr>))"
  using assms
  by (auto simp: rewriteTask_def adapter_read_def adapter_write_def Let_def rewriteLines_def
        splicedLines_def lineEnding_def splice_take_drop)

theorem C7_rewriteTask_splice_witness:
  "files \<lparr>files = Map.empty(''a.md'' \<mapsto> ''intro'' @ [CR, LF] @ ''  - [ ] buy milk'' @ [CR, LF] @ ''    and eggs'' @ [CR, LF] @ ''outro''), log = []\<rparr> ''a.md''
     = Some (''intro'' @ [CR, LF] @ ''  - [ ] buy milk'' @ [CR, LF] @ ''    and eggs'' @ [CR, LF] @ ''outro'')
   \<and> dashTaskExec (lineAt (splitLines (''intro'' @ [CR, LF] @ ''  - [ ] buy milk'' @ [CR, LF] @ ''    and eggs'' @ [CR, LF] @ ''outro'')) 1)
       = Some [Some ''  - [ ] buy milk'', Some ''-'', Some ''[ ]'', Some ''buy milk'']
   \<and> rewriteTask dashTaskExec
        \<lparr>files = Map.empty(''a.md'' \<mapsto> ''intro'' @ [CR, LF] @ ''  - [ ] buy milk'' @ [CR, LF] @ ''    and eggs'' @ [CR, LF] @ ''outro''), log = []\<rparr>
        (SListItem ''a.md'' 1 2 (''buy milk'' @ [LF] @ ''and eggs'') ''-'' '' '' [])
        ''X'' (Some (''a'' @ [LF] @ ''b'' @ [LF] @ ''c''))
     = (Inr (),
        \<lparr>files = Map.empty(''a.md'' \<mapsto>
            ''intro'' @ [CR, LF] @ ''  - [X] a'' @ [CR, LF] @ ''  '' @ [TAB] @ ''b'' @ [CR, LF] @ ''  '' @ [TAB] @ ''c'' @ [CR, LF] @ ''outro''),
         log = [Read ''a.md'', Write ''a.md''
            (''intro'' @ [CR, LF] @ ''  - [X] a'' @ [CR, LF] @ ''  '' @ [TAB] @ ''b'' @ [CR, LF] @ ''  '' @ [TAB] @ ''c'' @ [CR, LF] @ ''outro'')]\<rparr>)"
  using C7_rewriteTask_splice [of "''X''" "SListItem ''a.md'' 1 2 (''buy milk'' @ [LF] @ ''and eggs'') ''-'' '' '' []"
       "''a'' @ [LF] @ ''b'' @ [LF] @ ''c''"
       "\<lparr>files = Map.empty(''a.md'' \<mapsto> ''intro'' @ [CR, LF] @ ''  - [ ] buy milk'' @ [CR, LF] @ ''    and eggs'' @ [CR, LF] @ ''outro''), log = []\<rparr>"
       "''intro'' @ [CR, LF] @ ''  - [ ] buy milk'' @ [CR, LF] @ ''    and eggs'' @ [CR, LF] @ ''outro''"
       dashTaskExec "[Some ''  - [ ] buy milk'', Some ''-'', Some ''[ ]'', Some ''buy milk'']"
       "''[ ]''" "''buy milk''"]
  by (simp add: dashTaskExec_def isWhitespace_def lineAt_def groupAt_def trim_def
        leadingWhitespace_def lineEnding_def splicedLines_def Let_def)

end
